theory Spec2Isabelle
  imports Main "HOL-Library.Multiset"
begin

section \<open>The Atrezzo catalogue scraper (Attrezo-py.py)\<close>

text \<open>
  The script fetches the pages \<open>1 .. paginas - 1\<close> of a catalogue concurrently, parses each
  body with BeautifulSoup, extracts five columns from every parsed page
  (\<open>llenar_diccionario\<close>), and concatenates the per-page tables (\<open>concat_df\<close>, \<open>main\<close>).

  What the script takes from its libraries is modelled by what the libraries document:
  \<^item> a Python \<open>str\<close> is a list of code points; the text of a page is a \<open>'c list\<close>, so that
    \<open>len\<close> counts its elements whatever the code points are. Tag names, class names,
    attribute names and URLs are compared with ASCII literals and are \<open>string\<close>s;
  \<^item> the network is a function from the requested URL to the response (status and body);
    a request that ends without any response (a connection error) is not modelled;
  \<^item> the parser of BeautifulSoup is a parameter \<open>parser\<close> from a body to a document tree;
  \<^item> a document tree is a rose tree of tags and text nodes; \<open>findAll\<close> returns the matching
    descendants of a tag in document order, \<open>getText\<close> the concatenated text below a node;
  \<^item> \<open>pd.DataFrame\<close> of a dict of lists raises \<open>ValueError\<close> unless all lists have the same
    length; \<open>pd.concat\<close> raises \<open>ValueError\<close> on an empty list of tables;
  \<^item> \<open>asyncio.gather\<close> returns the results in the order of the awaitables it was given,
    whatever the order in which they complete.
\<close>

subsection \<open>Python values\<close>

datatype error = ValueError | AttributeError | IndexError

text \<open>An entry of one of the five lists: a string, \<open>np.nan\<close>, or \<open>None\<close>.\<close>

datatype 'c celda = Str "'c list" | NaN | PyNone

text \<open>\<open>pd.isna\<close>: both \<open>np.nan\<close> and \<open>None\<close> are null values.\<close>

fun isna :: "'c celda \<Rightarrow> bool" where
  "isna (Str s) = False"
| "isna NaN = True"
| "isna PyNone = True"

text \<open>\<open>xs[0]\<close>: raises \<open>IndexError\<close> on the empty list.\<close>

definition primero :: "'a list \<Rightarrow> error + 'a" where
  "primero xs = (case xs of [] \<Rightarrow> Inl IndexError | x # _ \<Rightarrow> Inr x)"

text \<open>\<open>str(n)\<close> for an integer, as the f-string of the URL renders the page number.\<close>

definition digito :: "nat \<Rightarrow> char" where
  "digito d = ''0123456789'' ! d"

function digitos :: "nat \<Rightarrow> string" where
  "digitos n = (if n < 10 then [digito n] else digitos (n div 10) @ [digito (n mod 10)])"
  by pat_completeness auto
termination
  by (relation "measure (\<lambda>n. n)") auto

declare digitos.simps [simp del]

definition str_int :: "int \<Rightarrow> string" where
  "str_int i = (if i < 0 then CHR ''-'' # digitos (nat (- i)) else digitos (nat i))"

subsection \<open>The parsed document\<close>

text \<open>
  A node is a text node or a tag with its name, the tokens of its \<open>class\<close> attribute, its
  other attributes and its children.
\<close>

datatype 'c nodo =
    Texto "'c list"
  | Etiqueta string "string list" "(string \<times> 'c list) list" "'c nodo list"

fun getText :: "'c nodo \<Rightarrow> 'c list" where
  "getText (Texto s) = s"
| "getText (Etiqueta n cs ats hs) = concat (map getText hs)"

text \<open>The descendants of a node in document order (the node itself is not one of them).\<close>

fun descendientes :: "'c nodo \<Rightarrow> 'c nodo list" where
  "descendientes (Texto s) = []"
| "descendientes (Etiqueta n cs ats hs) = concat (map (\<lambda>h. h # descendientes h) hs)"

text \<open>The value of a \<open>class\<close> attribute as one string: its tokens joined by single spaces.\<close>

fun unir :: "string list \<Rightarrow> string" where
  "unir [] = []"
| "unir [c] = c"
| "unir (c # d # cs) = c @ '' '' @ unir (d # cs)"

text \<open>
  A tag matches a name and, when a class is asked for, a class that is one of its tokens
  or the whole value of its \<open>class\<close> attribute.
\<close>

fun coincide :: "string \<Rightarrow> string option \<Rightarrow> 'c nodo \<Rightarrow> bool" where
  "coincide nom cl (Texto s) = False"
| "coincide nom cl (Etiqueta n cs ats hs) =
     (n = nom \<and> (case cl of None \<Rightarrow> True | Some c \<Rightarrow> List.member cs c \<or> c = unir cs))"

definition findAll :: "string \<Rightarrow> string option \<Rightarrow> 'c nodo \<Rightarrow> 'c nodo list" where
  "findAll nom cl nd = filter (coincide nom cl) (descendientes nd)"

text \<open>\<open>tag.get(k)\<close>: the attribute's value, or \<open>None\<close> when the tag has no such attribute.\<close>

fun get :: "'c nodo \<Rightarrow> string \<Rightarrow> 'c celda" where
  "get (Texto s) k = PyNone"
| "get (Etiqueta n cs ats hs) k = (case map_of ats k of None \<Rightarrow> PyNone | Some v \<Rightarrow> Str v)"

subsection \<open>The world: requests sent and lines printed\<close>

text \<open>
  \<open>peticiones\<close> lists the URLs of the GET requests and \<open>salida\<close> the printed lines, both
  in the order in which the responses arrive.
\<close>

datatype linea =
    Se_ha_producido_un_error
  | Status_code int
  | No_se_ha_anadido_la_pagina

record mundo =
  peticiones :: "string list"
  salida :: "linea list"

definition print :: "linea \<Rightarrow> mundo \<Rightarrow> mundo" where
  "print l w = w\<lparr>salida := salida w @ [l]\<rparr>"

record 'c respuesta =
  status :: int
  cuerpo :: "'c list"

type_synonym 'c red = "string \<Rightarrow> 'c respuesta"

subsection \<open>fetch_async_url and sopa_atrezzo\<close>

text \<open>
  \<^verbatim>\<open>
  async with session_objetivo.get(url) as response:
      if response.status != 200:
          print("Se ha producido un error")
      print(f"Status code: {response.status}")
      return await response.text()
  \<close>
\<close>

definition fetch_async_url :: "'c red \<Rightarrow> string \<Rightarrow> mundo \<Rightarrow> 'c list \<times> mundo" where
  "fetch_async_url session_objetivo url w =
     (let response = session_objetivo url;
          w1 = w\<lparr>peticiones := peticiones w @ [url]\<rparr>;
          w2 = (if status response \<noteq> 200 then print Se_ha_producido_un_error w1 else w1);
          w3 = print (Status_code (status response)) w2
      in (cuerpo response, w3))"

definition url_atrezzo :: "int \<Rightarrow> string" where
  "url_atrezzo page =
     ''https://atrezzovazquez.es/shop.php?search_type=-1&search_terms=&limit=48&page=''
       @ str_int page"

text \<open>
  \<open>if html_content:\<close> is true of a non-empty string; otherwise the function falls off its
  end and returns \<open>None\<close>.
\<close>

definition sopa_atrezzo ::
  "('c list \<Rightarrow> 'c nodo) \<Rightarrow> 'c red \<Rightarrow> int \<Rightarrow> mundo \<Rightarrow> 'c nodo option \<times> mundo" where
  "sopa_atrezzo parser session page w =
     (let (html_content, w') = fetch_async_url session (url_atrezzo page) w
      in (if html_content \<noteq> [] then Some (parser html_content) else None, w'))"

subsection \<open>llenar_diccionario\<close>

text \<open>The two \<open>try\<close> blocks of the loop over the product blocks, and the one of the images.\<close>

definition nombre_producto :: "'c nodo \<Rightarrow> 'c celda" where
  "nombre_producto producto =
     (case primero (findAll ''a'' (Some ''title'') producto) of
        Inr a \<Rightarrow> Str (getText a)
      | Inl e \<Rightarrow> NaN)"

definition categoria_producto :: "'c nodo \<Rightarrow> 'c celda" where
  "categoria_producto producto =
     (case primero (findAll ''a'' (Some ''tag'') producto) of
        Inr a \<Rightarrow> Str (getText a)
      | Inl e \<Rightarrow> NaN)"

definition link_imagen :: "'c nodo \<Rightarrow> 'c celda" where
  "link_imagen imagen =
     (case primero (findAll ''img'' None imagen) of
        Inr img \<Rightarrow> get img ''src''
      | Inl e \<Rightarrow> NaN)"

text \<open>The four loops, each appending to its list.\<close>

fun bucle_productos ::
  "'c nodo list \<Rightarrow> 'c celda list \<times> 'c celda list \<Rightarrow> 'c celda list \<times> 'c celda list" where
  "bucle_productos [] (nombres, categorias) = (nombres, categorias)"
| "bucle_productos (producto # resto) (nombres, categorias) =
     bucle_productos resto
       (nombres @ [nombre_producto producto], categorias @ [categoria_producto producto])"

fun bucle_secciones :: "'c nodo list \<Rightarrow> 'c celda list \<Rightarrow> 'c celda list" where
  "bucle_secciones [] secciones = secciones"
| "bucle_secciones (seccion # resto) secciones =
     bucle_secciones resto
       (if length (getText seccion) > 1 then secciones @ [Str (getText seccion)]
        else secciones @ [NaN])"

fun bucle_descripciones :: "'c nodo list \<Rightarrow> 'c celda list \<Rightarrow> 'c celda list" where
  "bucle_descripciones [] descripciones = descripciones"
| "bucle_descripciones (descripcion # resto) descripciones =
     bucle_descripciones resto (descripciones @ [Str (getText descripcion)])"

fun bucle_imagenes :: "'c nodo list \<Rightarrow> 'c celda list \<Rightarrow> 'c celda list" where
  "bucle_imagenes [] imagenes = imagenes"
| "bucle_imagenes (imagen # resto) imagenes =
     bucle_imagenes resto (imagenes @ [link_imagen imagen])"

text \<open>The five lists that \<open>llenar_diccionario\<close> hands to \<open>pd.DataFrame\<close>.\<close>

definition lista_prod_cat :: "'c nodo \<Rightarrow> 'c nodo list" where
  "lista_prod_cat sopa = findAll ''div'' (Some ''product-slide-entry shift-image'') sopa"

definition lista_secciones :: "'c nodo \<Rightarrow> 'c nodo list" where
  "lista_secciones sopa = findAll ''div'' (Some ''cat-sec-box'') sopa"

definition lista_descripciones :: "'c nodo \<Rightarrow> 'c nodo list" where
  "lista_descripciones sopa = findAll ''p'' None sopa"

definition lista_imagenes :: "'c nodo \<Rightarrow> 'c nodo list" where
  "lista_imagenes sopa = findAll ''div'' (Some ''product-image'') sopa"

definition nombres_productos :: "'c nodo \<Rightarrow> 'c celda list" where
  "nombres_productos sopa = fst (bucle_productos (lista_prod_cat sopa) ([], []))"

definition categorias_productos :: "'c nodo \<Rightarrow> 'c celda list" where
  "categorias_productos sopa = snd (bucle_productos (lista_prod_cat sopa) ([], []))"

definition secciones_productos :: "'c nodo \<Rightarrow> 'c celda list" where
  "secciones_productos sopa = bucle_secciones (lista_secciones sopa) []"

definition descripciones_productos :: "'c nodo \<Rightarrow> 'c celda list" where
  "descripciones_productos sopa = take 48 (bucle_descripciones (lista_descripciones sopa) [])"

definition imagenes_productos :: "'c nodo \<Rightarrow> 'c celda list" where
  "imagenes_productos sopa = bucle_imagenes (lista_imagenes sopa) []"

text \<open>
  A cell of a table. pandas keeps a string as it is; a missing entry it stores as \<open>nan\<close> or
  as \<open>None\<close>, depending on the other entries of the column and on its version. The table
  therefore records of a missing entry only that the cell is null (\<open>None\<close> of the option
  type), which is what \<open>pd.isna\<close> tells of it.
\<close>

fun valor :: "'c celda \<Rightarrow> 'c list option" where
  "valor (Str s) = Some s"
| "valor NaN = None"
| "valor PyNone = None"

text \<open>A row of a table, with the five columns of the script.\<close>

record 'c fila =
  nombre :: "'c list option"
  categoria :: "'c list option"
  descripcion :: "'c list option"
  seccion :: "'c list option"
  url :: "'c list option"

text \<open>
  \<open>pd.DataFrame\<close> of the five lists: the rows by position when the lists have one length,
  \<open>ValueError\<close> (All arrays must be of the same length) otherwise.
\<close>

definition DataFrame ::
  "'c celda list \<Rightarrow> 'c celda list \<Rightarrow> 'c celda list \<Rightarrow> 'c celda list \<Rightarrow> 'c celda list
    \<Rightarrow> error + 'c fila list" where
  "DataFrame ns cs ds ss us =
     (if length cs = length ns \<and> length ds = length ns \<and> length ss = length ns
         \<and> length us = length ns
      then Inr (map (\<lambda>i. \<lparr>nombre = valor (ns ! i), categoria = valor (cs ! i),
                          descripcion = valor (ds ! i), seccion = valor (ss ! i),
                          url = valor (us ! i)\<rparr>) [0..<length ns])
      else Inl ValueError)"

text \<open>
  The argument is what \<open>sopa_atrezzo\<close> returned: on \<open>None\<close> the first \<open>findAll\<close> raises
  \<open>AttributeError\<close>.
\<close>

definition llenar_diccionario :: "'c nodo option \<Rightarrow> error + 'c fila list" where
  "llenar_diccionario documento =
     (case documento of
        None \<Rightarrow> Inl AttributeError
      | Some sopa \<Rightarrow>
          DataFrame (nombres_productos sopa) (categorias_productos sopa)
            (descripciones_productos sopa) (secciones_productos sopa)
            (imagenes_productos sopa))"

subsection \<open>concat_df and main\<close>

text \<open>\<open>pd.concat(df_list, ignore_index=True)\<close>: No objects to concatenate on \<open>[]\<close>.\<close>

definition concat_df :: "'c fila list list \<Rightarrow> error + 'c fila list" where
  "concat_df df_list = (if df_list = [] then Inl ValueError else Inr (concat df_list))"

text \<open>
  \<open>asyncio.gather\<close>. A task of the script prints and returns between two suspension
  points, so a run of the tasks is the order in which their responses arrive: \<open>orden\<close>
  lists the positions of the tasks in that order. Each completion stores its result in
  the slot of its task; \<open>gather\<close> returns once every slot is filled, and then the slots in
  the order of submission. While a slot is empty it does not return (\<open>None\<close>).
\<close>

definition completar ::
  "(mundo \<Rightarrow> 'a \<times> mundo) list \<Rightarrow> nat \<Rightarrow> 'a option list \<times> mundo \<Rightarrow> 'a option list \<times> mundo" where
  "completar tareas i sw =
     (if i < length tareas
      then (let (r, w') = (tareas ! i) (snd sw) in ((fst sw)[i := Some r], w'))
      else sw)"

definition gather ::
  "(mundo \<Rightarrow> 'a \<times> mundo) list \<Rightarrow> nat list \<Rightarrow> mundo \<Rightarrow> ('a list \<times> mundo) option" where
  "gather tareas orden w =
     (let (slots, w') = fold (completar tareas) orden (replicate (length tareas) None, w)
      in map_option (\<lambda>rs. (rs, w')) (those slots))"

text \<open>The loop of \<open>main\<close> over the gathered documents, with its \<open>try\<close>/\<open>except\<close>.\<close>

fun bucle_sopas ::
  "'c nodo option list \<Rightarrow> 'c fila list list \<times> mundo \<Rightarrow> 'c fila list list \<times> mundo" where
  "bucle_sopas [] (df_list, w) = (df_list, w)"
| "bucle_sopas (sopa # resto) (df_list, w) =
     (case llenar_diccionario sopa of
        Inr df_atrezzo \<Rightarrow> bucle_sopas resto (df_list @ [df_atrezzo], w)
      | Inl e \<Rightarrow> bucle_sopas resto (df_list, print No_se_ha_anadido_la_pagina w))"

text \<open>
  \<open>range(1, paginas)\<close> is \<open>[1..paginas - 1]\<close>. The result is \<open>None\<close> when \<open>gather\<close> does not
  return, and otherwise what \<open>main\<close> returns or raises, with the world it leaves.
\<close>

definition main ::
  "('c list \<Rightarrow> 'c nodo) \<Rightarrow> 'c red \<Rightarrow> int \<Rightarrow> nat list \<Rightarrow> mundo
    \<Rightarrow> ((error + 'c fila list) \<times> mundo) option" where
  "main parser session paginas orden w =
     (let tareas = map (sopa_atrezzo parser session) [1..paginas - 1]
      in case gather tareas orden w of
           None \<Rightarrow> None
         | Some (sopas, w1) \<Rightarrow>
             (let (df_list, w2) = bucle_sopas sopas ([], w1)
              in Some (concat_df df_list, w2)))"

subsection \<open>Pages, a parser and networks to run the script on\<close>

text \<open>
  \<open>entrada n\<close> is the markup of one catalogue entry named \<open>n\<close>; \<open>parser_de_prueba\<close> stands for
  the parser on bodies in which every character is one such entry.
\<close>

definition entrada :: "string \<Rightarrow> char nodo" where
  "entrada n =
     Etiqueta ''div'' [''product-slide-entry'', ''shift-image''] []
       [Etiqueta ''div'' [''product-image''] []
          [Etiqueta ''img'' [] [(''src'', ''/img/'' @ n)] []],
        Etiqueta ''a'' [''tag''] [] [Texto ''Atrezzo''],
        Etiqueta ''a'' [''title''] [] [Texto n],
        Etiqueta ''div'' [''cat-sec-box''] [] [Texto ''Arte''],
        Etiqueta ''p'' [] [] [Texto ''Una '', Etiqueta ''b'' [] [] [Texto n]]]"

definition pagina_de_prueba :: "string list \<Rightarrow> char nodo" where
  "pagina_de_prueba ns = Etiqueta ''[document]'' [] [] (map entrada ns)"

definition pagina_larga :: "char nodo" where
  "pagina_larga =
     Etiqueta ''[document]'' [] []
       (map entrada [''a'', ''b''] @ replicate 48 (Etiqueta ''p'' [] [] [Texto ''pie'']))"

definition pagina_incompleta :: "char nodo" where
  "pagina_incompleta =
     Etiqueta ''[document]'' [] []
       [Etiqueta ''div'' [''product-slide-entry'', ''shift-image''] []
          [Etiqueta ''a'' [''tag''] [] [Texto ''Atrezzo'']],
        Etiqueta ''div'' [''product-image''] [] [],
        Etiqueta ''div'' [''cat-sec-box''] [] [Texto ''A''],
        Etiqueta ''p'' [] [] [Texto ''uno''],
        entrada ''b'',
        Etiqueta ''div'' [''product-slide-entry'', ''shift-image''] []
          [Etiqueta ''a'' [''title''] [] [Texto ''c'']],
        Etiqueta ''div'' [''product-image''] [] [Etiqueta ''img'' [] [(''alt'', ''c'')] []],
        Etiqueta ''div'' [''cat-sec-box''] [] [],
        Etiqueta ''p'' [] [] []]"

text \<open>
  Two product blocks of which the first has no image block, followed by an image block
  that belongs to no product; and the same page without that last block.
\<close>

definition entrada_sin_imagen :: "string \<Rightarrow> char nodo" where
  "entrada_sin_imagen n =
     Etiqueta ''div'' [''product-slide-entry'', ''shift-image''] []
       [Etiqueta ''a'' [''tag''] [] [Texto ''Atrezzo''],
        Etiqueta ''a'' [''title''] [] [Texto n],
        Etiqueta ''div'' [''cat-sec-box''] [] [Texto ''Arte''],
        Etiqueta ''p'' [] [] [Texto ''Una '', Etiqueta ''b'' [] [] [Texto n]]]"

definition pagina_desalineada :: "char nodo" where
  "pagina_desalineada =
     Etiqueta ''[document]'' [] []
       [entrada_sin_imagen ''A1'',
        entrada ''A2'',
        Etiqueta ''div'' [''product-image''] []
          [Etiqueta ''img'' [] [(''src'', ''/img/banner'')] []]]"

definition pagina_sin_imagen :: "char nodo" where
  "pagina_sin_imagen =
     Etiqueta ''[document]'' [] [] [entrada_sin_imagen ''A1'', entrada ''A2'']"

definition parser_de_prueba :: "string \<Rightarrow> char nodo" where
  "parser_de_prueba html = pagina_de_prueba (map (\<lambda>c. [c]) html)"

definition red_de_prueba :: "char red" where
  "red_de_prueba u =
     (if u = url_atrezzo 1 then \<lparr>status = 200, cuerpo = ''ab''\<rparr>
      else if u = url_atrezzo 2 then \<lparr>status = 200, cuerpo = ''c''\<rparr>
      else if u = url_atrezzo 3 then \<lparr>status = 200, cuerpo = ''d''\<rparr>
      else \<lparr>status = 404, cuerpo = ''''\<rparr>)"

definition red_con_404 :: "char red" where
  "red_con_404 u = \<lparr>status = 404, cuerpo = ''x''\<rparr>"

definition mundo0 :: mundo where
  "mundo0 = \<lparr>peticiones = [], salida = []\<rparr>"

section \<open>The loops as maps\<close>

lemma bucle_productos_eq:
  "bucle_productos ps (ns, cs) = (ns @ map nombre_producto ps, cs @ map categoria_producto ps)"
  by (induction ps arbitrary: ns cs) simp_all

lemma bucle_secciones_eq:
  "bucle_secciones ss acc =
     acc @ map (\<lambda>s. if 1 < length (getText s) then Str (getText s) else NaN) ss"
  by (induction ss arbitrary: acc) simp_all

lemma bucle_descripciones_eq:
  "bucle_descripciones ds acc = acc @ map (\<lambda>d. Str (getText d)) ds"
  by (induction ds arbitrary: acc) simp_all

lemma bucle_imagenes_eq:
  "bucle_imagenes is acc = acc @ map link_imagen is"
  by (induction "is" arbitrary: acc) simp_all

lemma bucle_sopas_fst:
  "fst (bucle_sopas sopas (dfs, w)) =
     dfs @ List.map_filter (\<lambda>s. case llenar_diccionario s of Inr t \<Rightarrow> Some t | Inl e \<Rightarrow> None) sopas"
  by (induction sopas arbitrary: dfs w) (simp_all add: List.map_filter_simps split: sum.splits)

lemma nombres_productos_eq: "nombres_productos sopa = map nombre_producto (lista_prod_cat sopa)"
  by (simp add: nombres_productos_def bucle_productos_eq)

lemma categorias_productos_eq:
  "categorias_productos sopa = map categoria_producto (lista_prod_cat sopa)"
  by (simp add: categorias_productos_def bucle_productos_eq)

lemma secciones_productos_eq:
  "secciones_productos sopa =
     map (\<lambda>s. if 1 < length (getText s) then Str (getText s) else NaN) (lista_secciones sopa)"
  by (simp add: secciones_productos_def bucle_secciones_eq)

lemma descripciones_productos_eq:
  "descripciones_productos sopa =
     take 48 (map (\<lambda>d. Str (getText d)) (lista_descripciones sopa))"
  by (simp add: descripciones_productos_def bucle_descripciones_eq)

lemma imagenes_productos_eq: "imagenes_productos sopa = map link_imagen (lista_imagenes sopa)"
  by (simp add: imagenes_productos_def bucle_imagenes_eq)

lemma isna_get: "isna (get img k) \<longleftrightarrow> get img k = PyNone"
  by (cases img) (simp_all split: option.splits)

lemma longitudes_columnas:
  "length (nombres_productos sopa) = length (lista_prod_cat sopa)"
  "length (categorias_productos sopa) = length (lista_prod_cat sopa)"
  "length (secciones_productos sopa) = length (lista_secciones sopa)"
  "length (descripciones_productos sopa) = min 48 (length (lista_descripciones sopa))"
  "length (imagenes_productos sopa) = length (lista_imagenes sopa)"
  by (simp_all add: nombres_productos_eq categorias_productos_eq secciones_productos_eq
      descripciones_productos_eq imagenes_productos_eq min.commute)

lemma llenar_diccionario_tabla:
  assumes c: "length (lista_secciones sopa) = length (lista_prod_cat sopa)
              \<and> length (lista_imagenes sopa) = length (lista_prod_cat sopa)
              \<and> min 48 (length (lista_descripciones sopa)) = length (lista_prod_cat sopa)"
  shows "llenar_diccionario (Some sopa) =
           Inr (map (\<lambda>i. \<lparr>nombre = valor (nombre_producto (lista_prod_cat sopa ! i)),
                          categoria = valor (categoria_producto (lista_prod_cat sopa ! i)),
                          descripcion = Some (getText (lista_descripciones sopa ! i)),
                          seccion = (if 1 < length (getText (lista_secciones sopa ! i))
                                     then Some (getText (lista_secciones sopa ! i)) else None),
                          url = valor (link_imagen (lista_imagenes sopa ! i))\<rparr>)
                  [0..<length (lista_prod_cat sopa)])"
proof -
  let ?k = "length (lista_prod_cat sopa)"
  have d: "descripciones_productos sopa ! i = Str (getText (lista_descripciones sopa ! i))"
    if "i < ?k" for i
  proof -
    have "i < 48" and "i < length (lista_descripciones sopa)"
      using that c by linarith+
    then show ?thesis by (simp add: descripciones_productos_eq)
  qed
  have "DataFrame (nombres_productos sopa) (categorias_productos sopa)
          (descripciones_productos sopa) (secciones_productos sopa) (imagenes_productos sopa) =
        Inr (map (\<lambda>i. \<lparr>nombre = valor (nombres_productos sopa ! i),
                           categoria = valor (categorias_productos sopa ! i),
                           descripcion = valor (descripciones_productos sopa ! i),
                           seccion = valor (secciones_productos sopa ! i),
                           url = valor (imagenes_productos sopa ! i)\<rparr>) [0..<?k])"
    using c by (simp add: DataFrame_def longitudes_columnas)
  also have "\<dots> = Inr (map (\<lambda>i. \<lparr>nombre = valor (nombre_producto (lista_prod_cat sopa ! i)),
                        categoria = valor (categoria_producto (lista_prod_cat sopa ! i)),
                        descripcion = Some (getText (lista_descripciones sopa ! i)),
                        seccion = (if 1 < length (getText (lista_secciones sopa ! i))
                                   then Some (getText (lista_secciones sopa ! i)) else None),
                        url = valor (link_imagen (lista_imagenes sopa ! i))\<rparr>) [0..<?k])"
    using c d
    by (simp add: nombres_productos_eq categorias_productos_eq secciones_productos_eq
        imagenes_productos_eq)
  finally show ?thesis by (simp add: llenar_diccionario_def)
qed

lemma llenar_diccionario_error:
  assumes c: "\<not> (length (lista_secciones sopa) = length (lista_prod_cat sopa)
              \<and> length (lista_imagenes sopa) = length (lista_prod_cat sopa)
              \<and> min 48 (length (lista_descripciones sopa)) = length (lista_prod_cat sopa))"
  shows "llenar_diccionario (Some sopa) = Inl ValueError"
proof -
  have "DataFrame (nombres_productos sopa) (categorias_productos sopa)
          (descripciones_productos sopa) (secciones_productos sopa) (imagenes_productos sopa) =
        Inl ValueError"
    using c by (auto simp add: DataFrame_def longitudes_columnas)
  then show ?thesis by (simp add: llenar_diccionario_def)
qed

section \<open>Gathering the tasks\<close>

lemma those_map_Some: "those (map Some xs) = Some xs"
  by (induction xs) simp_all

lemma fold_completar_slots:
  assumes res: "\<And>i w. i < length tareas \<Longrightarrow> fst ((tareas ! i) w) = res ! i"
  shows "length slots = length tareas \<Longrightarrow>
         fst (fold (completar tareas) orden (slots, w)) =
           map (\<lambda>i. if i \<in> set orden then Some (res ! i) else slots ! i) [0..<length tareas]"
proof (induction orden arbitrary: slots w)
  case Nil
  then show ?case by (auto intro!: nth_equalityI)
next
  case (Cons i orden)
  show ?case
  proof (cases "i < length tareas")
    case True
    obtain r w' where rw: "(tareas ! i) w = (r, w')" by (cases "(tareas ! i) w")
    have r: "r = res ! i" using res [OF True, of w] rw by simp
    have "fst (fold (completar tareas) (i # orden) (slots, w)) =
          fst (fold (completar tareas) orden (slots[i := Some (res ! i)], w'))"
      using True rw r by (simp add: completar_def)
    also have "\<dots> = map (\<lambda>j. if j \<in> set orden then Some (res ! j) else slots[i := Some (res ! i)] ! j)
                        [0..<length tareas]"
      using Cons.IH [of "slots[i := Some (res ! i)]" w'] Cons.prems by simp
    also have "\<dots> = map (\<lambda>j. if j \<in> set (i # orden) then Some (res ! j) else slots ! j)
                        [0..<length tareas]"
      using Cons.prems by (auto simp: nth_list_update)
    finally show ?thesis .
  next
    case False
    have "fst (fold (completar tareas) (i # orden) (slots, w)) =
          fst (fold (completar tareas) orden (slots, w))"
      using False by (simp add: completar_def)
    also have "\<dots> = map (\<lambda>j. if j \<in> set orden then Some (res ! j) else slots ! j) [0..<length tareas]"
      using Cons.IH [of slots w] Cons.prems by simp
    also have "\<dots> = map (\<lambda>j. if j \<in> set (i # orden) then Some (res ! j) else slots ! j)
                        [0..<length tareas]"
      using False by auto
    finally show ?thesis .
  qed
qed

lemma gather_resultados:
  assumes res: "\<And>i w. i < length tareas \<Longrightarrow> fst ((tareas ! i) w) = res ! i"
    and len: "length res = length tareas"
    and ord: "set orden = {0..<length tareas}"
  shows "gather tareas orden w =
           Some (res, snd (fold (completar tareas) orden (replicate (length tareas) None, w)))"
proof -
  have "fst (fold (completar tareas) orden (replicate (length tareas) None, w)) =
          map (\<lambda>i. if i \<in> set orden then Some (res ! i) else replicate (length tareas) None ! i)
            [0..<length tareas]"
    by (rule fold_completar_slots [OF res]) simp_all
  also have "\<dots> = map (\<lambda>i. Some (res ! i)) [0..<length tareas]"
    using ord by simp
  also have "\<dots> = map Some res"
    using len by (auto intro!: nth_equalityI)
  finally have slots:
    "fst (fold (completar tareas) orden (replicate (length tareas) None, w)) = map Some res" .
  obtain sl w' where f: "fold (completar tareas) orden (replicate (length tareas) None, w) = (sl, w')"
    by (cases "fold (completar tareas) orden (replicate (length tareas) None, w)")
  have "sl = map Some res" using slots f by simp
  then show ?thesis
    unfolding gather_def f by (simp add: those_map_Some)
qed

section \<open>The URL of a page\<close>

lemma digito_inj: "d < 10 \<Longrightarrow> e < 10 \<Longrightarrow> digito d = digito e \<Longrightarrow> d = e"
proof -
  assume d: "d < 10" and e: "e < 10" and eq: "digito d = digito e"
  have dist: "distinct ''0123456789''" by simp
  have len: "length ''0123456789'' = 10" by simp
  show "d = e"
    using dist d e eq len unfolding digito_def
    by (metis nth_eq_iff_index_eq)
qed

lemma digito_no_menos: "d < 10 \<Longrightarrow> digito d \<noteq> CHR ''-''"
proof -
  assume d: "d < 10"
  have "digito d \<in> set ''0123456789''"
    unfolding digito_def using d by (intro nth_mem) simp
  then show ?thesis by auto
qed

lemma digitos_no_vacio: "digitos n \<noteq> []"
  by (subst digitos.simps) simp

lemma hd_digitos: "hd (digitos n) \<noteq> CHR ''-''"
proof (induction n rule: digitos.induct)
  case (1 n)
  show ?case
  proof (cases "n < 10")
    case True
    then show ?thesis by (subst digitos.simps) (simp add: digito_no_menos)
  next
    case False
    then show ?thesis
      using "1.IH" digitos_no_vacio [of "n div 10"] by (subst digitos.simps) simp
  qed
qed

lemma digitos_inj: "digitos m = digitos n \<Longrightarrow> m = n"
proof (induction m arbitrary: n rule: digitos.induct)
  case (1 m)
  have lm: "last (digitos m) = digito (m mod 10)"
    by (subst digitos.simps) simp
  have ln: "last (digitos n) = digito (n mod 10)"
    by (subst digitos.simps) simp
  have bm: "butlast (digitos m) = (if m < 10 then [] else digitos (m div 10))"
    by (subst digitos.simps) simp
  have bn: "butlast (digitos n) = (if n < 10 then [] else digitos (n div 10))"
    by (subst digitos.simps) simp
  have "digito (m mod 10) = digito (n mod 10)" using lm ln "1.prems" by simp
  then have md: "m mod 10 = n mod 10" by (intro digito_inj) simp_all
  have b: "(if m < 10 then [] else digitos (m div 10)) = (if n < 10 then [] else digitos (n div 10))"
    using bm bn "1.prems" by simp
  show ?case
  proof (cases "m < 10")
    case True
    then have "n < 10" using b digitos_no_vacio [of "n div 10"] by (auto split: if_splits)
    then show ?thesis using True md by simp
  next
    case False
    then have n: "\<not> n < 10" using b digitos_no_vacio [of "m div 10"] by (auto split: if_splits)
    then have "digitos (m div 10) = digitos (n div 10)" using b False by simp
    then have "m div 10 = n div 10" using "1.IH" False by simp
    then show ?thesis using md by (metis div_mult_mod_eq)
  qed
qed

lemma str_int_inj: "str_int i = str_int j \<Longrightarrow> i = j"
proof -
  assume eq: "str_int i = str_int j"
  have neg: "\<And>a b. CHR ''-'' # digitos a \<noteq> digitos b"
    using hd_digitos by (metis list.sel(1))
  show "i = j"
  proof (cases "i < 0")
    case True
    then have "j < 0" using eq neg [of "nat (- i)" "nat j"] by (auto simp: str_int_def split: if_splits)
    then have "nat (- i) = nat (- j)" using True eq by (simp add: str_int_def digitos_inj)
    then show ?thesis using True \<open>j < 0\<close> by simp
  next
    case False
    then have "\<not> j < 0" using eq neg [of "nat (- j)" "nat i"] by (auto simp: str_int_def split: if_splits)
    then have "nat i = nat j" using False eq by (simp add: str_int_def digitos_inj)
    then show ?thesis using False \<open>\<not> j < 0\<close> by simp
  qed
qed

lemma url_atrezzo_inj: "url_atrezzo i = url_atrezzo j \<Longrightarrow> i = j"
  unfolding url_atrezzo_def by (simp add: str_int_inj)

section \<open>What main returns and requests\<close>

lemma fst_sopa_atrezzo:
  "fst (sopa_atrezzo parser session page w) =
     (if cuerpo (session (url_atrezzo page)) \<noteq> []
      then Some (parser (cuerpo (session (url_atrezzo page)))) else None)"
  by (simp add: sopa_atrezzo_def fetch_async_url_def Let_def)

lemma peticiones_sopa_atrezzo:
  "peticiones (snd (sopa_atrezzo parser session page w)) = peticiones w @ [url_atrezzo page]"
  by (simp add: sopa_atrezzo_def fetch_async_url_def Let_def print_def)

lemma fold_completar_peticiones:
  assumes pet: "\<And>i w. i < length tareas \<Longrightarrow>
                  peticiones (snd ((tareas ! i) w)) = peticiones w @ [urls ! i]"
  shows "set orden \<subseteq> {0..<length tareas} \<Longrightarrow>
         peticiones (snd (fold (completar tareas) orden (slots, w))) =
           peticiones w @ map ((!) urls) orden"
proof (induction orden arbitrary: slots w)
  case Nil
  then show ?case by simp
next
  case (Cons i orden)
  have i: "i < length tareas" using Cons.prems by simp
  obtain r w' where rw: "(tareas ! i) w = (r, w')" by (cases "(tareas ! i) w")
  have w': "peticiones w' = peticiones w @ [urls ! i]" using pet [OF i, of w] rw by simp
  have "peticiones (snd (fold (completar tareas) (i # orden) (slots, w))) =
        peticiones (snd (fold (completar tareas) orden (slots[i := Some r], w')))"
    using i rw by (simp add: completar_def)
  also have "\<dots> = peticiones w' @ map ((!) urls) orden"
    using Cons.IH [of "slots[i := Some r]" w'] Cons.prems by simp
  finally show ?case using w' by simp
qed

lemma peticiones_bucle_sopas:
  "peticiones (snd (bucle_sopas sopas (dfs, w))) = peticiones w"
  by (induction sopas arbitrary: dfs w) (simp_all add: print_def split: sum.splits)

lemma paginas_como_posiciones: "map (\<lambda>i. 1 + int i) [0..<nat (paginas - 1)] = [1..paginas - 1]"
  by (rule nth_equalityI) simp_all

lemma gather_sopas:
  assumes ord: "set orden = {0..<nat (paginas - 1)}"
  shows "gather (map (sopa_atrezzo parser session) [1..paginas - 1]) orden w =
           Some (map (\<lambda>page. if cuerpo (session (url_atrezzo page)) \<noteq> []
                              then Some (parser (cuerpo (session (url_atrezzo page)))) else None)
                   [1..paginas - 1],
                 snd (fold (completar (map (sopa_atrezzo parser session) [1..paginas - 1])) orden
                        (replicate (length (map (sopa_atrezzo parser session) [1..paginas - 1])) None, w)))"
proof (rule gather_resultados)
  fix i w
  assume "i < length (map (sopa_atrezzo parser session) [1..paginas - 1])"
  then show "fst ((map (sopa_atrezzo parser session) [1..paginas - 1] ! i) w) =
             map (\<lambda>page. if cuerpo (session (url_atrezzo page)) \<noteq> []
                          then Some (parser (cuerpo (session (url_atrezzo page)))) else None)
               [1..paginas - 1] ! i"
    by (simp add: fst_sopa_atrezzo)
next
  show "length (map (\<lambda>page. if cuerpo (session (url_atrezzo page)) \<noteq> []
                          then Some (parser (cuerpo (session (url_atrezzo page)))) else None)
               [1..paginas - 1]) = length (map (sopa_atrezzo parser session) [1..paginas - 1])"
    by simp
next
  show "set orden = {0..<length (map (sopa_atrezzo parser session) [1..paginas - 1])}"
    using ord by simp
qed

lemma main_tabla:
  assumes ord: "set orden = {0..<nat (paginas - 1)}"
  shows "map_option fst (main parser session paginas orden w) =
           Some (concat_df (List.map_filter
             (\<lambda>s. case llenar_diccionario s of Inr t \<Rightarrow> Some t | Inl e \<Rightarrow> None)
             (map (\<lambda>page. if cuerpo (session (url_atrezzo page)) \<noteq> []
                              then Some (parser (cuerpo (session (url_atrezzo page)))) else None)
                   [1..paginas - 1])))"
proof -
  let ?sopas = "map (\<lambda>page. if cuerpo (session (url_atrezzo page)) \<noteq> []
                              then Some (parser (cuerpo (session (url_atrezzo page)))) else None)
                   [1..paginas - 1]"
  obtain w1 where g: "gather (map (sopa_atrezzo parser session) [1..paginas - 1]) orden w = Some (?sopas, w1)"
    using gather_sopas [OF ord] by blast
  obtain dfs w2 where b: "bucle_sopas ?sopas ([], w1) = (dfs, w2)"
    by (cases "bucle_sopas ?sopas ([], w1)")
  have "dfs = List.map_filter (\<lambda>s. case llenar_diccionario s of Inr t \<Rightarrow> Some t | Inl e \<Rightarrow> None) ?sopas"
    using bucle_sopas_fst [of ?sopas "[]" w1] b by simp
  then show ?thesis
    unfolding main_def Let_def g using b by simp
qed

lemma main_peticiones:
  assumes ord: "set orden = {0..<nat (paginas - 1)}"
  shows "\<exists>r w'. main parser session paginas orden w = Some (r, w') \<and>
           peticiones w' = peticiones w @ map (\<lambda>i. url_atrezzo (1 + int i)) orden"
proof -
  let ?tareas = "map (sopa_atrezzo parser session) [1..paginas - 1]"
  let ?urls = "map url_atrezzo [1..paginas - 1]"
  let ?w1 = "snd (fold (completar ?tareas) orden (replicate (length ?tareas) None, w))"
  obtain sopas where g: "gather ?tareas orden w = Some (sopas, ?w1)"
    using gather_sopas [OF ord] by blast
  have sub: "set orden \<subseteq> {0..<length ?tareas}" using ord by simp
  have "peticiones ?w1 = peticiones w @ map ((!) ?urls) orden"
  proof (rule fold_completar_peticiones [OF _ sub])
    fix i w
    assume "i < length ?tareas"
    then show "peticiones (snd ((?tareas ! i) w)) = peticiones w @ [?urls ! i]"
      by (simp add: peticiones_sopa_atrezzo)
  qed
  also have "map ((!) ?urls) orden = map (\<lambda>i. url_atrezzo (1 + int i)) orden"
  proof (rule map_cong [OF refl])
    fix i assume "i \<in> set orden"
    then have "i < nat (paginas - 1)" using ord by simp
    then show "?urls ! i = url_atrezzo (1 + int i)" by simp
  qed
  finally have p1: "peticiones ?w1 = peticiones w @ map (\<lambda>i. url_atrezzo (1 + int i)) orden" .
  obtain dfs w2 where b: "bucle_sopas sopas ([], ?w1) = (dfs, w2)"
    by (cases "bucle_sopas sopas ([], ?w1)")
  have "peticiones w2 = peticiones ?w1"
    using peticiones_bucle_sopas [of sopas "[]" ?w1] b by simp
  then show ?thesis
    unfolding main_def Let_def g using b p1 by simp
qed

section \<open>The claims\<close>

subsection \<open>The page fetcher and a page that is not found\<close>

text \<open>
  Claim C1 says that \<open>fetch_async_url\<close>, on a response whose status is not 200, prints a
  diagnostic and returns no body. The function prints the diagnostic and then goes on to
  return the text of the response, whatever the status: here a response 404 with the
  body \<open>x\<close> is printed as an error and its body is returned.
\<close>

theorem fetch_async_url_404_devuelve_cuerpo:
  "status (red_con_404 (url_atrezzo 1)) = 404
   \<and> fetch_async_url red_con_404 (url_atrezzo 1) mundo0 =
       (''x'', \<lparr>peticiones = [url_atrezzo 1],
                 salida = [Se_ha_producido_un_error, Status_code 404]\<rparr>)"
  by (simp add: fetch_async_url_def red_con_404_def mundo0_def print_def)

text \<open>
  Claim C2 says that a page whose fetch returns a status other than 200 contributes no
  row to the table of the run. Since the body of such a response is returned and parsed
  like any other, its rows are in the table: a run over page 1 alone, answered 404 with a
  body that holds one catalogue entry, returns the row of that entry.
\<close>

theorem main_pagina_404_aporta_filas:
  "status (red_con_404 (url_atrezzo 1)) = 404
   \<and> map_option fst (main parser_de_prueba red_con_404 2 [0] mundo0) =
       Some (Inr [\<lparr>nombre = Some ''x'', categoria = Some ''Atrezzo'',
                   descripcion = Some ''Una x'', seccion = Some ''Arte'',
                   url = Some ''/img/x''\<rparr>])"
  by code_simp

subsection \<open>A run without tables\<close>

text \<open>
  Claim C3 says that \<open>main\<close> never raises, also when no page is requested. With
  \<open>paginas = 1\<close> the range of pages is empty, the list of tables is empty, and
  \<open>concat_df\<close> raises \<open>ValueError\<close>, which \<open>main\<close> does not catch.
\<close>

theorem main_sin_paginas_lanza_ValueError:
  "main parser_de_prueba red_de_prueba 1 [] mundo0 = Some (Inl ValueError, mundo0)"
  by code_simp

subsection \<open>The rows of a page\<close>

text \<open>
  Claim C4 says that a document with \<open>k\<close> product blocks and at least 48 paragraphs gives a
  table of exactly \<open>k\<close> rows. The page \<open>pagina_larga\<close> has two product blocks (each with its
  image, section and paragraph) and 50 paragraphs: the description column has 48 entries,
  the others two, and the table cannot be built.
\<close>

theorem llenar_diccionario_k_filas_falla:
  "length (lista_prod_cat pagina_larga) = 2
   \<and> 48 \<le> length (lista_descripciones pagina_larga)
   \<and> llenar_diccionario (Some pagina_larga) = Inl ValueError"
  by code_simp

text \<open>
  Claim C4, amended. For a document with \<open>k\<close> product blocks, \<open>llenar_diccionario\<close> returns
  a table exactly when the number of section blocks, the number of image blocks and the
  number of paragraphs kept (the smaller of 48 and the number of paragraphs) are all
  \<open>k\<close>. The table then has \<open>k\<close> rows; row \<open>i\<close> has the name and the category of the \<open>i\<close>-th
  product block, the text of the \<open>i\<close>-th paragraph, the value of the \<open>i\<close>-th section block
  and the image source of the \<open>i\<close>-th image block, each in document order. In every other
  case the constructor raises \<open>ValueError\<close>.
\<close>

theorem llenar_diccionario_filas:
  "llenar_diccionario (Some sopa) =
     (if length (lista_secciones sopa) = length (lista_prod_cat sopa)
         \<and> length (lista_imagenes sopa) = length (lista_prod_cat sopa)
         \<and> min 48 (length (lista_descripciones sopa)) = length (lista_prod_cat sopa)
      then Inr (map (\<lambda>i. \<lparr>nombre = valor (nombre_producto (lista_prod_cat sopa ! i)),
                          categoria = valor (categoria_producto (lista_prod_cat sopa ! i)),
                          descripcion = Some (getText (lista_descripciones sopa ! i)),
                          seccion = (if 1 < length (getText (lista_secciones sopa ! i))
                                     then Some (getText (lista_secciones sopa ! i)) else None),
                          url = valor (link_imagen (lista_imagenes sopa ! i))\<rparr>)
                  [0..<length (lista_prod_cat sopa)])
      else Inl ValueError)"
proof (cases "length (lista_secciones sopa) = length (lista_prod_cat sopa)
              \<and> length (lista_imagenes sopa) = length (lista_prod_cat sopa)
              \<and> min 48 (length (lista_descripciones sopa)) = length (lista_prod_cat sopa)")
  case True
  then show ?thesis using llenar_diccionario_tabla [of sopa] by simp
next
  case False
  then show ?thesis using llenar_diccionario_error [of sopa] by simp
qed

theorem llenar_diccionario_filas_testigo:
  "length (lista_secciones (pagina_de_prueba [''a'', ''b''])) = 2
   \<and> length (lista_imagenes (pagina_de_prueba [''a'', ''b''])) = 2
   \<and> min 48 (length (lista_descripciones (pagina_de_prueba [''a'', ''b'']))) = 2
   \<and> length (lista_prod_cat (pagina_de_prueba [''a'', ''b''])) = 2
   \<and> llenar_diccionario (Some (pagina_de_prueba [''a'', ''b''])) =
       Inr [\<lparr>nombre = Some ''a'', categoria = Some ''Atrezzo'', descripcion = Some ''Una a'',
              seccion = Some ''Arte'', url = Some ''/img/a''\<rparr>,
            \<lparr>nombre = Some ''b'', categoria = Some ''Atrezzo'', descripcion = Some ''Una b'',
              seccion = Some ''Arte'', url = Some ''/img/b''\<rparr>]"
proof -
  let ?p = "pagina_de_prueba [''a'', ''b'']"
  have k: "length (lista_secciones ?p) = 2 \<and> length (lista_imagenes ?p) = 2
           \<and> min 48 (length (lista_descripciones ?p)) = 2 \<and> length (lista_prod_cat ?p) = 2"
    by code_simp
  have "llenar_diccionario (Some ?p) =
          Inr (map (\<lambda>i. \<lparr>nombre = valor (nombre_producto (lista_prod_cat ?p ! i)),
                          categoria = valor (categoria_producto (lista_prod_cat ?p ! i)),
                          descripcion = Some (getText (lista_descripciones ?p ! i)),
                          seccion = (if 1 < length (getText (lista_secciones ?p ! i))
                                     then Some (getText (lista_secciones ?p ! i)) else None),
                          url = valor (link_imagen (lista_imagenes ?p ! i))\<rparr>)
                  [0..<length (lista_prod_cat ?p)])"
    using k llenar_diccionario_filas [of ?p] by simp
  also have "\<dots> = Inr [\<lparr>nombre = Some ''a'', categoria = Some ''Atrezzo'',
                          descripcion = Some ''Una a'', seccion = Some ''Arte'',
                          url = Some ''/img/a''\<rparr>,
                        \<lparr>nombre = Some ''b'', categoria = Some ''Atrezzo'',
                          descripcion = Some ''Una b'', seccion = Some ''Arte'',
                          url = Some ''/img/b''\<rparr>]"
    by code_simp
  finally show ?thesis using k by simp
qed

text \<open>
  Claim C5. When the five lists handed to \<open>pd.DataFrame\<close> do not all have one length,
  \<open>llenar_diccionario\<close> raises \<open>ValueError\<close>, and the loop of \<open>main\<close> leaves the list of
  tables as it would be without that page: wherever the page stands among the gathered
  documents, it adds no table, padded or partial.
\<close>

theorem columnas_desiguales_pagina_descartada:
  assumes "\<not> (length (categorias_productos sopa) = length (nombres_productos sopa)
             \<and> length (descripciones_productos sopa) = length (nombres_productos sopa)
             \<and> length (secciones_productos sopa) = length (nombres_productos sopa)
             \<and> length (imagenes_productos sopa) = length (nombres_productos sopa))"
  shows "llenar_diccionario (Some sopa) = Inl ValueError
         \<and> fst (bucle_sopas (antes @ Some sopa # despues) (df_list, w)) =
             fst (bucle_sopas (antes @ despues) (df_list, w))"
proof -
  have l: "llenar_diccionario (Some sopa) = Inl ValueError"
    using assms by (simp add: llenar_diccionario_def DataFrame_def)
  have "fst (bucle_sopas (antes @ Some sopa # despues) (df_list, w)) =
        fst (bucle_sopas (antes @ despues) (df_list, w))"
    by (simp add: bucle_sopas_fst List.map_filter_def l)
  with l show ?thesis by simp
qed

theorem columnas_desiguales_pagina_descartada_testigo:
  "\<not> (length (categorias_productos pagina_larga) = length (nombres_productos pagina_larga)
      \<and> length (descripciones_productos pagina_larga) = length (nombres_productos pagina_larga)
      \<and> length (secciones_productos pagina_larga) = length (nombres_productos pagina_larga)
      \<and> length (imagenes_productos pagina_larga) = length (nombres_productos pagina_larga))
   \<and> llenar_diccionario (Some pagina_larga) = Inl ValueError
   \<and> fst (bucle_sopas ([Some (pagina_de_prueba [''a''])] @ Some pagina_larga # []) ([], mundo0)) =
       fst (bucle_sopas ([Some (pagina_de_prueba [''a''])] @ []) ([], mundo0))"
proof -
  have h: "\<not> (length (categorias_productos pagina_larga) = length (nombres_productos pagina_larga)
      \<and> length (descripciones_productos pagina_larga) = length (nombres_productos pagina_larga)
      \<and> length (secciones_productos pagina_larga) = length (nombres_productos pagina_larga)
      \<and> length (imagenes_productos pagina_larga) = length (nombres_productos pagina_larga))"
    by code_simp
  show ?thesis
    using h columnas_desiguales_pagina_descartada
      [OF h, of "[Some (pagina_de_prueba [''a''])]" "[]" "[]" mundo0]
    by blast
qed

subsection \<open>The columns\<close>

text \<open>
  Claim C6. The description column is the text of the paragraph elements of the document,
  in document order, cut to its first 48 entries; a document with 48 paragraphs or fewer
  keeps them all.
\<close>

theorem descripciones_primeras_48:
  "descripciones_productos sopa = take 48 (map (\<lambda>p. Str (getText p)) (findAll ''p'' None sopa))
   \<and> (length (findAll ''p'' None sopa) \<le> 48 \<longrightarrow>
        descripciones_productos sopa = map (\<lambda>p. Str (getText p)) (findAll ''p'' None sopa))"
  by (simp add: descripciones_productos_eq lista_descripciones_def)

theorem descripciones_primeras_48_testigo:
  "length (findAll ''p'' None (pagina_de_prueba [''a''])) \<le> 48
   \<and> descripciones_productos (pagina_de_prueba [''a'']) = [Str ''Una a'']"
proof -
  have h: "length (findAll ''p'' None (pagina_de_prueba [''a''])) \<le> 48"
    by code_simp
  have "descripciones_productos (pagina_de_prueba [''a'']) =
          map (\<lambda>p. Str (getText p)) (findAll ''p'' None (pagina_de_prueba [''a'']))"
    using h descripciones_primeras_48 [of "pagina_de_prueba [''a'']"] by blast
  also have "\<dots> = [Str ''Una a'']"
    by code_simp
  finally show ?thesis using h by simp
qed

text \<open>
  Claim C7. The section column has one entry for each section block, in document order:
  the text of the block when it is longer than one character, and \<open>np.nan\<close> when its
  length is 1 or 0.
\<close>

theorem secciones_texto_o_nulo:
  "secciones_productos sopa =
     map (\<lambda>seccion. if 1 < length (getText seccion) then Str (getText seccion) else NaN)
       (findAll ''div'' (Some ''cat-sec-box'') sopa)"
  by (simp add: secciones_productos_eq lista_secciones_def)

theorem secciones_texto_o_nulo_testigo:
  "map getText (findAll ''div'' (Some ''cat-sec-box'') pagina_incompleta) = [''A'', ''Arte'', '''']
   \<and> secciones_productos pagina_incompleta = [NaN, Str ''Arte'', NaN]"
proof -
  have t: "map getText (findAll ''div'' (Some ''cat-sec-box'') pagina_incompleta) =
             [''A'', ''Arte'', '''']"
    by code_simp
  have "secciones_productos pagina_incompleta =
          map (\<lambda>seccion. if 1 < length (getText seccion) then Str (getText seccion) else NaN)
            (findAll ''div'' (Some ''cat-sec-box'') pagina_incompleta)"
    by (rule secciones_texto_o_nulo)
  also have "\<dots> = [NaN, Str ''Arte'', NaN]"
    by code_simp
  finally show ?thesis using t by simp
qed

text \<open>
  Claim C9 says that, for every product block, an absent image source gives a null image
  in the row of that block, and that a failing field never stops the rest. The image loop
  does not look into the product blocks: it runs over the image blocks of the whole
  document. On \<open>pagina_desalineada\<close> the first product block has no image at all and its
  row holds the image of the second block; on \<open>pagina_sin_imagen\<close>, the same two product
  blocks alone, the image list is one entry short and the extraction of the whole page
  raises.
\<close>

theorem imagen_ausente_fila_no_nula:
  "lista_prod_cat pagina_desalineada = [entrada_sin_imagen ''A1'', entrada ''A2'']
   \<and> findAll ''img'' None (entrada_sin_imagen ''A1'') = []
   \<and> llenar_diccionario (Some pagina_desalineada) =
       Inr [\<lparr>nombre = Some ''A1'', categoria = Some ''Atrezzo'', descripcion = Some ''Una A1'',
              seccion = Some ''Arte'', url = Some ''/img/A2''\<rparr>,
            \<lparr>nombre = Some ''A2'', categoria = Some ''Atrezzo'', descripcion = Some ''Una A2'',
              seccion = Some ''Arte'', url = Some ''/img/banner''\<rparr>]
   \<and> lista_prod_cat pagina_sin_imagen = [entrada_sin_imagen ''A1'', entrada ''A2'']
   \<and> llenar_diccionario (Some pagina_sin_imagen) = Inl ValueError"
  by code_simp

text \<open>
  Claim C9, amended. Every product block gives one name and one category, and every image
  block of the document (whichever product block it lies in, if any) one image source;
  each entry is computed from its own block alone and no absent element raises, so that
  no field and no block stops another. The name is null exactly when the product block
  has no \<open>a\<close> element of class \<open>title\<close>, the category when it has none of class \<open>tag\<close>;
  the image source is null exactly when the image block has no \<open>img\<close> element or its
  first \<open>img\<close> element has no \<open>src\<close> attribute. The extraction of a page raises only
  \<open>ValueError\<close>, and only when the lists differ in length; when the table is built, row
  \<open>i\<close> has the name and the category of the \<open>i\<close>-th product block and the image source of
  the \<open>i\<close>-th image block, null where the entry is null.
\<close>

theorem campos_por_bloque:
  "nombres_productos sopa = map nombre_producto (lista_prod_cat sopa)
   \<and> categorias_productos sopa = map categoria_producto (lista_prod_cat sopa)
   \<and> imagenes_productos sopa = map link_imagen (lista_imagenes sopa)
   \<and> (isna (nombre_producto producto) \<longleftrightarrow> findAll ''a'' (Some ''title'') producto = [])
   \<and> (isna (categoria_producto producto) \<longleftrightarrow> findAll ''a'' (Some ''tag'') producto = [])
   \<and> (isna (link_imagen imagen) \<longleftrightarrow>
        (case findAll ''img'' None imagen of
           [] \<Rightarrow> True
         | img # resto \<Rightarrow> get img ''src'' = PyNone))
   \<and> (get (Etiqueta n cs ats hs) ''src'' = PyNone \<longleftrightarrow> map_of ats ''src'' = None)
   \<and> (valor c = None \<longleftrightarrow> isna c)
   \<and> (case llenar_diccionario (Some sopa) of
        Inr tabla \<Rightarrow>
          length tabla = length (lista_prod_cat sopa)
          \<and> length (lista_imagenes sopa) = length (lista_prod_cat sopa)
          \<and> map nombre tabla =
              map (\<lambda>producto. valor (nombre_producto producto)) (lista_prod_cat sopa)
          \<and> map categoria tabla =
              map (\<lambda>producto. valor (categoria_producto producto)) (lista_prod_cat sopa)
          \<and> map url tabla = map (\<lambda>imagen. valor (link_imagen imagen)) (lista_imagenes sopa)
      | Inl e \<Rightarrow>
          e = ValueError
          \<and> \<not> (length (lista_secciones sopa) = length (lista_prod_cat sopa)
                \<and> length (lista_imagenes sopa) = length (lista_prod_cat sopa)
                \<and> min 48 (length (lista_descripciones sopa)) = length (lista_prod_cat sopa)))"
proof -
  let ?c = "length (lista_secciones sopa) = length (lista_prod_cat sopa)
            \<and> length (lista_imagenes sopa) = length (lista_prod_cat sopa)
            \<and> min 48 (length (lista_descripciones sopa)) = length (lista_prod_cat sopa)"
  let ?filas = "map (\<lambda>i. \<lparr>nombre = valor (nombre_producto (lista_prod_cat sopa ! i)),
                          categoria = valor (categoria_producto (lista_prod_cat sopa ! i)),
                          descripcion = Some (getText (lista_descripciones sopa ! i)),
                          seccion = (if 1 < length (getText (lista_secciones sopa ! i))
                                     then Some (getText (lista_secciones sopa ! i)) else None),
                          url = valor (link_imagen (lista_imagenes sopa ! i))\<rparr>)
                  [0..<length (lista_prod_cat sopa)]"
  have t: "case llenar_diccionario (Some sopa) of
        Inr tabla \<Rightarrow>
          length tabla = length (lista_prod_cat sopa)
          \<and> length (lista_imagenes sopa) = length (lista_prod_cat sopa)
          \<and> map nombre tabla =
              map (\<lambda>producto. valor (nombre_producto producto)) (lista_prod_cat sopa)
          \<and> map categoria tabla =
              map (\<lambda>producto. valor (categoria_producto producto)) (lista_prod_cat sopa)
          \<and> map url tabla = map (\<lambda>imagen. valor (link_imagen imagen)) (lista_imagenes sopa)
      | Inl e \<Rightarrow> e = ValueError \<and> \<not> ?c"
  proof (cases ?c)
    case True
    then have li: "length (lista_imagenes sopa) = length (lista_prod_cat sopa)" by simp
    have l: "llenar_diccionario (Some sopa) = Inr ?filas"
      by (rule llenar_diccionario_tabla [OF True])
    have "length ?filas = length (lista_prod_cat sopa)" by simp
    moreover have "map nombre ?filas =
        map (\<lambda>producto. valor (nombre_producto producto)) (lista_prod_cat sopa)"
      by (rule nth_equalityI) simp_all
    moreover have "map categoria ?filas =
        map (\<lambda>producto. valor (categoria_producto producto)) (lista_prod_cat sopa)"
      by (rule nth_equalityI) simp_all
    moreover have "map url ?filas =
        map (\<lambda>imagen. valor (link_imagen imagen)) (lista_imagenes sopa)"
      using li by (intro nth_equalityI) simp_all
    ultimately show ?thesis unfolding l using li by simp
  next
    case False
    have l: "llenar_diccionario (Some sopa) = Inl ValueError"
      by (rule llenar_diccionario_error [OF False])
    show ?thesis unfolding l using False by simp
  qed
  have n: "isna (nombre_producto producto) \<longleftrightarrow> findAll ''a'' (Some ''title'') producto = []"
    by (simp add: nombre_producto_def primero_def split: list.splits)
  have c: "isna (categoria_producto producto) \<longleftrightarrow> findAll ''a'' (Some ''tag'') producto = []"
    by (simp add: categoria_producto_def primero_def split: list.splits)
  have i: "isna (link_imagen imagen) \<longleftrightarrow>
        (case findAll ''img'' None imagen of
           [] \<Rightarrow> True
         | img # resto \<Rightarrow> get img ''src'' = PyNone)"
    by (simp add: link_imagen_def primero_def isna_get split: list.splits)
  have s: "get (Etiqueta n cs ats hs) ''src'' = PyNone \<longleftrightarrow> map_of ats ''src'' = None"
    by (simp split: option.splits)
  have v: "valor c = None \<longleftrightarrow> isna c"
    by (cases c) simp_all
  show ?thesis
    using t n c i s v nombres_productos_eq [of sopa] categorias_productos_eq [of sopa]
      imagenes_productos_eq [of sopa]
    by blast
qed

theorem campos_por_bloque_testigo:
  "llenar_diccionario (Some pagina_incompleta) =
     Inr [\<lparr>nombre = None, categoria = Some ''Atrezzo'', descripcion = Some ''uno'',
            seccion = None, url = None\<rparr>,
          \<lparr>nombre = Some ''b'', categoria = Some ''Atrezzo'', descripcion = Some ''Una b'',
            seccion = Some ''Arte'', url = Some ''/img/b''\<rparr>,
          \<lparr>nombre = Some ''c'', categoria = None, descripcion = Some '''',
            seccion = None, url = None\<rparr>]
   \<and> map (\<lambda>producto. valor (nombre_producto producto)) (lista_prod_cat pagina_incompleta) =
       [None, Some ''b'', Some ''c'']
   \<and> map (\<lambda>producto. valor (categoria_producto producto)) (lista_prod_cat pagina_incompleta) =
       [Some ''Atrezzo'', Some ''Atrezzo'', None]
   \<and> map (\<lambda>imagen. valor (link_imagen imagen)) (lista_imagenes pagina_incompleta) =
       [None, Some ''/img/b'', None]
   \<and> map link_imagen (lista_imagenes pagina_incompleta) = [NaN, Str ''/img/b'', PyNone]"
proof -
  let ?t = "[\<lparr>nombre = None, categoria = Some ''Atrezzo'', descripcion = Some ''uno'',
            seccion = None, url = None\<rparr>,
          \<lparr>nombre = Some ''b'', categoria = Some ''Atrezzo'', descripcion = Some ''Una b'',
            seccion = Some ''Arte'', url = Some ''/img/b''\<rparr>,
          \<lparr>nombre = Some ''c'', categoria = None, descripcion = Some '''',
            seccion = None, url = None\<rparr>]"
  have h: "llenar_diccionario (Some pagina_incompleta) = Inr ?t"
    by code_simp
  have g: "map link_imagen (lista_imagenes pagina_incompleta) = [NaN, Str ''/img/b'', PyNone]"
    by code_simp
  have "case llenar_diccionario (Some pagina_incompleta) of
        Inr tabla \<Rightarrow>
          length tabla = length (lista_prod_cat pagina_incompleta)
          \<and> length (lista_imagenes pagina_incompleta) = length (lista_prod_cat pagina_incompleta)
          \<and> map nombre tabla =
              map (\<lambda>producto. valor (nombre_producto producto)) (lista_prod_cat pagina_incompleta)
          \<and> map categoria tabla =
              map (\<lambda>producto. valor (categoria_producto producto))
                (lista_prod_cat pagina_incompleta)
          \<and> map url tabla =
              map (\<lambda>imagen. valor (link_imagen imagen)) (lista_imagenes pagina_incompleta)
      | Inl e \<Rightarrow>
          e = ValueError
          \<and> \<not> (length (lista_secciones pagina_incompleta) = length (lista_prod_cat pagina_incompleta)
                \<and> length (lista_imagenes pagina_incompleta) =
                    length (lista_prod_cat pagina_incompleta)
                \<and> min 48 (length (lista_descripciones pagina_incompleta)) =
                    length (lista_prod_cat pagina_incompleta))"
    using campos_por_bloque [of pagina_incompleta] by blast
  then have "map nombre ?t =
              map (\<lambda>producto. valor (nombre_producto producto)) (lista_prod_cat pagina_incompleta)
        \<and> map categoria ?t =
              map (\<lambda>producto. valor (categoria_producto producto))
                (lista_prod_cat pagina_incompleta)
        \<and> map url ?t =
              map (\<lambda>imagen. valor (link_imagen imagen)) (lista_imagenes pagina_incompleta)"
    unfolding h by simp
  then show ?thesis using h g by simp
qed

subsection \<open>The run\<close>

text \<open>
  Claim C8. For a page count \<open>p \<ge> 1\<close>, and whatever the order in which the responses
  arrive, \<open>main\<close> returns or raises after exactly \<open>p - 1\<close> new GET requests: one for the URL
  of each page \<open>1 .. p - 1\<close>, none twice, and none for the URL of page \<open>p\<close>.
\<close>

theorem main_peticiones_por_pagina:
  assumes p: "1 \<le> paginas" and ord: "mset orden = mset [0..<nat (paginas - 1)]"
  shows "\<exists>r w' nuevas. main parser session paginas orden w = Some (r, w')
           \<and> peticiones w' = peticiones w @ nuevas
           \<and> int (length nuevas) = paginas - 1
           \<and> mset nuevas = mset (map url_atrezzo [1..paginas - 1])
           \<and> distinct nuevas
           \<and> url_atrezzo paginas \<notin> set nuevas"
proof -
  let ?nuevas = "map (\<lambda>i. url_atrezzo (1 + int i)) orden"
  have s: "set orden = {0..<nat (paginas - 1)}"
    using mset_eq_setD [OF ord] by simp
  obtain r w' where m: "main parser session paginas orden w = Some (r, w')"
    and pw: "peticiones w' = peticiones w @ ?nuevas"
    using main_peticiones [OF s] by blast
  have "length orden = length [0..<nat (paginas - 1)]"
    using ord by (rule mset_eq_length)
  then have len: "int (length ?nuevas) = paginas - 1" using p by simp
  have "mset ?nuevas = image_mset (\<lambda>i. url_atrezzo (1 + int i)) (mset orden)" by simp
  also have "\<dots> = mset (map url_atrezzo (map (\<lambda>i. 1 + int i) [0..<nat (paginas - 1)]))"
    unfolding ord by (simp add: comp_def)
  finally have ms: "mset ?nuevas = mset (map url_atrezzo [1..paginas - 1])"
    by (simp only: paginas_como_posiciones)
  have "distinct (map url_atrezzo [1..paginas - 1])"
    by (simp add: distinct_map inj_on_def url_atrezzo_inj)
  then have di: "distinct ?nuevas"
    using ms by (metis mset_eq_imp_distinct_iff)
  have "set ?nuevas = set (map url_atrezzo [1..paginas - 1])"
    using ms by (rule mset_eq_setD)
  then have ni: "url_atrezzo paginas \<notin> set ?nuevas"
    by (auto dest: url_atrezzo_inj)
  show ?thesis using m pw len ms di ni by blast
qed

theorem main_peticiones_por_pagina_testigo:
  "(1::int) \<le> 4 \<and> mset [2, 0, 1] = mset [0..<nat (4 - 1)]
   \<and> (\<exists>r w' nuevas. main parser_de_prueba red_de_prueba 4 [2, 0, 1] mundo0 = Some (r, w')
         \<and> peticiones w' = peticiones mundo0 @ nuevas
         \<and> int (length nuevas) = 4 - 1
         \<and> mset nuevas = mset (map url_atrezzo [1..4 - 1])
         \<and> distinct nuevas
         \<and> url_atrezzo 4 \<notin> set nuevas)"
proof -
  have p: "(1::int) \<le> 4" by simp
  have ord: "mset [2, 0, 1] = mset [0..<nat (4 - 1)]" by (simp add: upt_rec)
  show ?thesis
    using p ord main_peticiones_por_pagina [OF p ord, of parser_de_prueba red_de_prueba mundo0]
    by blast
qed

text \<open>
  Claim C10. Whatever the order \<open>orden\<close> in which the fetches complete, \<open>main\<close> hands to
  \<open>concat_df\<close> the tables of the pages \<open>1 .. paginas - 1\<close> in ascending page order (those
  pages whose extraction did not raise), so that the table it returns is their
  concatenation in that order; \<open>concat_df\<close> raises when there is no table at all. In the
  run below page 3 completes first and its row is still the last one.
\<close>

theorem main_orden_de_envio:
  assumes ord: "mset orden = mset [0..<nat (paginas - 1)]"
  shows "map_option fst (main parser session paginas orden w) =
           Some (concat_df (List.map_filter
             (\<lambda>sopa. case llenar_diccionario sopa of Inr t \<Rightarrow> Some t | Inl e \<Rightarrow> None)
             (map (\<lambda>page. if cuerpo (session (url_atrezzo page)) \<noteq> []
                          then Some (parser (cuerpo (session (url_atrezzo page)))) else None)
                [1..paginas - 1])))"
proof -
  have "set orden = {0..<nat (paginas - 1)}"
    using mset_eq_setD [OF ord] by simp
  then show ?thesis by (rule main_tabla)
qed

theorem main_orden_de_envio_testigo:
  "mset [2, 0, 1] = mset [0..<nat (4 - 1)]
   \<and> map_option fst (main parser_de_prueba red_de_prueba 4 [2, 0, 1] mundo0) =
       Some (Inr [\<lparr>nombre = Some ''a'', categoria = Some ''Atrezzo'', descripcion = Some ''Una a'',
                   seccion = Some ''Arte'', url = Some ''/img/a''\<rparr>,
                 \<lparr>nombre = Some ''b'', categoria = Some ''Atrezzo'', descripcion = Some ''Una b'',
                   seccion = Some ''Arte'', url = Some ''/img/b''\<rparr>,
                 \<lparr>nombre = Some ''c'', categoria = Some ''Atrezzo'', descripcion = Some ''Una c'',
                   seccion = Some ''Arte'', url = Some ''/img/c''\<rparr>,
                 \<lparr>nombre = Some ''d'', categoria = Some ''Atrezzo'', descripcion = Some ''Una d'',
                   seccion = Some ''Arte'', url = Some ''/img/d''\<rparr>])"
proof -
  have ord: "mset [2, 0, 1] = mset [0..<nat (4 - 1)]" by (simp add: upt_rec)
  have "map_option fst (main parser_de_prueba red_de_prueba 4 [2, 0, 1] mundo0) =
          Some (concat_df (List.map_filter
             (\<lambda>sopa. case llenar_diccionario sopa of Inr t \<Rightarrow> Some t | Inl e \<Rightarrow> None)
             (map (\<lambda>page. if cuerpo (red_de_prueba (url_atrezzo page)) \<noteq> []
                          then Some (parser_de_prueba (cuerpo (red_de_prueba (url_atrezzo page))))
                          else None)
                [1..4 - 1])))"
    by (rule main_orden_de_envio [OF ord])
  also have "\<dots> =
       Some (Inr [\<lparr>nombre = Some ''a'', categoria = Some ''Atrezzo'', descripcion = Some ''Una a'',
                   seccion = Some ''Arte'', url = Some ''/img/a''\<rparr>,
                 \<lparr>nombre = Some ''b'', categoria = Some ''Atrezzo'', descripcion = Some ''Una b'',
                   seccion = Some ''Arte'', url = Some ''/img/b''\<rparr>,
                 \<lparr>nombre = Some ''c'', categoria = Some ''Atrezzo'', descripcion = Some ''Una c'',
                   seccion = Some ''Arte'', url = Some ''/img/c''\<rparr>,
                 \<lparr>nombre = Some ''d'', categoria = Some ''Atrezzo'', descripcion = Some ''Una d'',
                   seccion = Some ''Arte'', url = Some ''/img/d''\<rparr>])"
    by code_simp
  finally show ?thesis using ord by simp
qed

end
